theory Spec2Isabelle
  imports Main
begin

section \<open>The policy certificate verifier of nw.js (src/policy_cert_verifier.cc)\<close>

text \<open>
  \<^verbatim>\<open>nw::PolicyCertVerifier\<close> decorates a certificate verification engine of Chromium's
  \<^verbatim>\<open>net\<close> library: it prepends administratively supplied trust anchors to the
  configuration handed to the engine, and runs a closure whenever a verification succeeded
  through one of these anchors. The engine, the configuration structure and the closures
  are Chromium's; the embedding keeps of them what the file reads or writes and leaves the
  rest as type parameters.
\<close>

subsection \<open>Data\<close>

text \<open>
  A \<^verbatim>\<open>net::CertificateList\<close> is a vector of reference-counted pointers to certificates;
  \<^verbatim>\<open>operator==\<close> on it compares lengths and then the pointers, position by position. A
  certificate is therefore represented by the identity of the object pointed to.
\<close>

type_synonym cert = nat

type_synonym CertificateList = "cert list"

text \<open>
  \<^verbatim>\<open>net::CertVerifier::Config\<close>: the file touches the member
  \<^verbatim>\<open>additional_trust_anchors\<close> only; all other members are gathered in
  \<open>other_fields\<close>, of a type the file never looks into.
\<close>

record 'o Config =
  other_fields :: 'o
  additional_trust_anchors :: CertificateList

text \<open>
  \<^verbatim>\<open>net::CertVerifyResult\<close>: the file reads one member of it.
\<close>

record CertVerifyResult =
  is_issued_by_additional_trust_anchor :: bool

text \<open>
  \<^verbatim>\<open>net::CertVerifyProc\<close>: the file asks it one question; \<open>proc_id\<close> stands for
  the identity of the object.
\<close>

record CertVerifyProc =
  proc_id :: nat
  SupportsAdditionalTrustAnchors :: bool

text \<open>
  A \<^verbatim>\<open>base::RepeatingClosure\<close> is null or bound to a target (named by a number);
  a \<^verbatim>\<open>net::CompletionOnceCallback\<close> is named by a number as well. What running them does
  is recorded as an event.
\<close>

datatype RepeatingClosure = NullClosure | Closure nat

fun is_null :: "RepeatingClosure \<Rightarrow> bool" where
  "is_null NullClosure = True"
| "is_null (Closure k) = False"

type_synonym CompletionOnceCallback = nat

datatype event =
    ClosureRun nat
  | CompletionRun CompletionOnceCallback int

text \<open>\<^verbatim>\<open>net::OK\<close> of net/base/net_errors.h.\<close>

definition OK :: int where
  "OK = 0"

text \<open>
  The engine behind \<open>delegate_\<close> (a \<^verbatim>\<open>net::CachingCertVerifier\<close> over a
  \<^verbatim>\<open>net::MultiThreadedCertVerifier\<close>) is known by the procedure it was built from and by
  the calls of \<^verbatim>\<open>SetConfig\<close> it received, oldest first.
\<close>

record 'o CachingCertVerifier =
  verify_proc :: CertVerifyProc
  SetConfig_calls :: "'o Config list"

definition CachingCertVerifier_new :: "CertVerifyProc \<Rightarrow> 'o CachingCertVerifier" where
  "CachingCertVerifier_new p = \<lparr>verify_proc = p, SetConfig_calls = []\<rparr>"

definition CachingCertVerifier_SetConfig ::
  "'o Config \<Rightarrow> 'o CachingCertVerifier \<Rightarrow> 'o CachingCertVerifier" where
  "CachingCertVerifier_SetConfig c d = d\<lparr>SetConfig_calls := SetConfig_calls d @ [c]\<rparr>"

text \<open>
  What the engine answers to one call of its \<^verbatim>\<open>Verify\<close>: the status it returns, the
  content of \<^verbatim>\<open>*verify_result\<close> at that moment and, when it runs the completion callback
  it was given later on, the error code it passes and the content of \<^verbatim>\<open>*verify_result\<close>
  then. The callback is a once-callback, so it runs at most one time.
\<close>

record engine_reply =
  status :: int
  result_at_return :: CertVerifyResult
  completion :: "(int \<times> CertVerifyResult) option"

text \<open>
  The members of \<^verbatim>\<open>PolicyCertVerifier\<close>; \<open>this_x\<close> is the member \<^verbatim>\<open>x_\<close>. A null
  \<^verbatim>\<open>std::unique_ptr\<close> is \<open>None\<close>.
\<close>

record 'o PolicyCertVerifier =
  this_anchor_used_callback :: RepeatingClosure
  this_orig_config :: "'o Config"
  this_trust_anchors :: CertificateList
  this_delegate :: "'o CachingCertVerifier option"

text \<open>
  Ways a call can end without returning: a failed \<^verbatim>\<open>DCHECK\<close> (builds with DCHECKs on), or
  the dereference of a null pointer.
\<close>

datatype fault = DCheckFailed | NullDereference

subsection \<open>The free functions of the anonymous namespace\<close>

definition MaybeSignalAnchorUse ::
  "int \<Rightarrow> RepeatingClosure \<Rightarrow> CertVerifyResult \<Rightarrow> event list" where
  "MaybeSignalAnchorUse error anchor_used_callback verify_result =
     (if error \<noteq> OK \<or> \<not> is_issued_by_additional_trust_anchor verify_result \<or>
         is_null anchor_used_callback
      then []
      else (case anchor_used_callback of Closure k \<Rightarrow> [ClosureRun k] | NullClosure \<Rightarrow> []))"

definition CompleteAndSignalAnchorUse ::
  "RepeatingClosure \<Rightarrow> CompletionOnceCallback \<Rightarrow> CertVerifyResult \<Rightarrow> int \<Rightarrow> event list" where
  "CompleteAndSignalAnchorUse anchor_used_callback completion_callback verify_result error =
     MaybeSignalAnchorUse error anchor_used_callback verify_result @
     [CompletionRun completion_callback error]"

definition ExtendTrustAnchors :: "'o Config \<Rightarrow> CertificateList \<Rightarrow> 'o Config" where
  "ExtendTrustAnchors config trust_anchors =
     (let new_config = config in
      new_config\<lparr>additional_trust_anchors :=
        trust_anchors @ additional_trust_anchors new_config\<rparr>)"

subsection \<open>The member functions\<close>

text \<open>
  The constructor stores the closure; the other members are default-constructed, the
  configuration to the default \<^verbatim>\<open>Config\<close> (a parameter here).
\<close>

definition PolicyCertVerifier_new ::
  "'o Config \<Rightarrow> RepeatingClosure \<Rightarrow> 'o PolicyCertVerifier" where
  "PolicyCertVerifier_new default_config anchor_used_callback =
     \<lparr>this_anchor_used_callback = anchor_used_callback,
      this_orig_config = default_config,
      this_trust_anchors = [],
      this_delegate = None\<rparr>"

text \<open>
  \<^verbatim>\<open>InitializeOnIOThread\<close> returns the lines it logs at level WARNING and the new state.
  The \<^verbatim>\<open>DefaultCertVerifyProcFactory\<close> it creates is handed to the engine, which alone
  uses it; the file never calls it, and it is not part of the state kept here. An engine
  replaces whatever \<open>delegate_\<close> held before.
\<close>

definition InitializeOnIOThread ::
  "CertVerifyProc \<Rightarrow> 'o PolicyCertVerifier \<Rightarrow> string list \<times> 'o PolicyCertVerifier" where
  "InitializeOnIOThread p v =
     (let warnings =
        (if \<not> SupportsAdditionalTrustAnchors p
         then [''Additional trust anchors not supported on the current platform!'']
         else []);
          d = CachingCertVerifier_new p
      in (warnings,
          v\<lparr>this_delegate := Some (CachingCertVerifier_SetConfig
               (ExtendTrustAnchors (this_orig_config v) (this_trust_anchors v)) d)\<rparr>))"

definition SetTrustAnchors ::
  "CertificateList \<Rightarrow> 'o PolicyCertVerifier \<Rightarrow> 'o PolicyCertVerifier" where
  "SetTrustAnchors trust_anchors v =
     (if trust_anchors = this_trust_anchors v then v
      else
        (let v1 = v\<lparr>this_trust_anchors := trust_anchors\<rparr> in
         case this_delegate v1 of
           None \<Rightarrow> v1
         | Some d \<Rightarrow>
             v1\<lparr>this_delegate := Some (CachingCertVerifier_SetConfig
                  (ExtendTrustAnchors (this_orig_config v1) (this_trust_anchors v1)) d)\<rparr>))"

text \<open>
  \<^verbatim>\<open>SetConfig\<close> assigns \<open>orig_config_\<close> and then goes through \<open>delegate_\<close>,
  with no test of the pointer.
\<close>

definition SetConfig ::
  "'o Config \<Rightarrow> 'o PolicyCertVerifier \<Rightarrow> fault + 'o PolicyCertVerifier" where
  "SetConfig config v =
     (let v1 = v\<lparr>this_orig_config := config\<rparr> in
      case this_delegate v1 of
        None \<Rightarrow> Inl NullDereference
      | Some d \<Rightarrow>
          Inr (v1\<lparr>this_delegate := Some (CachingCertVerifier_SetConfig
                 (ExtendTrustAnchors (this_orig_config v1) (this_trust_anchors v1)) d)\<rparr>))"

text \<open>
  \<^verbatim>\<open>Verify\<close>. The engine's own \<^verbatim>\<open>Verify\<close> is the parameter \<open>delegate_Verify\<close>;
  \<open>dcheck_is_on\<close> tells whether the build compiles \<^verbatim>\<open>DCHECK\<close>s in. The arguments
  \<^verbatim>\<open>out_req\<close> and \<^verbatim>\<open>net_log\<close> go to the engine as they are and are left out. The outcome
  holds the events that happen before \<^verbatim>\<open>Verify\<close> returns, the value returned, and the
  events that happen when the engine runs the wrapped callback afterwards.
\<close>

record verify_outcome =
  before_return :: "event list"
  returned :: int
  on_completion :: "event list"

definition Verify ::
  "bool \<Rightarrow> ('o CachingCertVerifier \<Rightarrow> 'p \<Rightarrow> engine_reply) \<Rightarrow> 'p \<Rightarrow> CompletionOnceCallback \<Rightarrow>
   'o PolicyCertVerifier \<Rightarrow> fault + verify_outcome" where
  "Verify dcheck_is_on delegate_Verify params completion_callback v =
     (if dcheck_is_on \<and> this_delegate v = None then Inl DCheckFailed
      else
        (let wrapped_callback =
               CompleteAndSignalAnchorUse (this_anchor_used_callback v) completion_callback
         in case this_delegate v of
              None \<Rightarrow> Inl NullDereference
            | Some d \<Rightarrow>
                (let reply = delegate_Verify d params;
                     error = status reply
                 in Inr \<lparr>before_return =
                           MaybeSignalAnchorUse error (this_anchor_used_callback v)
                             (result_at_return reply),
                         returned = error,
                         on_completion =
                           (case completion reply of
                              None \<Rightarrow> []
                            | Some (e, r) \<Rightarrow> wrapped_callback r e)\<rparr>)))"

subsection \<open>Observations on a state\<close>

definition reconfigurations :: "'o PolicyCertVerifier \<Rightarrow> nat" where
  "reconfigurations v =
     (case this_delegate v of None \<Rightarrow> 0 | Some d \<Rightarrow> length (SetConfig_calls d))"

definition anchor_runs :: "event list \<Rightarrow> nat" where
  "anchor_runs es = length (filter (\<lambda>e. case e of ClosureRun k \<Rightarrow> True | _ \<Rightarrow> False) es)"

definition completion_runs :: "event list \<Rightarrow> event list" where
  "completion_runs es =
     filter (\<lambda>e. case e of CompletionRun c x \<Rightarrow> True | _ \<Rightarrow> False) es"

section \<open>Properties\<close>

subsection \<open>Deriving the effective configuration\<close>

text \<open>
  C1. For every base configuration and every list of anchors, \<open>ExtendTrustAnchors\<close>
  returns a configuration whose list of additional trust anchors is the given anchors
  followed by those of the base configuration, in order, and whose other fields are
  those of the base configuration. It is a function of its two arguments alone, and the
  base configuration, taken by constant reference, is not changed.
\<close>

theorem ExtendTrustAnchors_prepends:
  "additional_trust_anchors (ExtendTrustAnchors C A) = A @ additional_trust_anchors C \<and>
   other_fields (ExtendTrustAnchors C A) = other_fields C \<and>
   ExtendTrustAnchors C A = C\<lparr>additional_trust_anchors := A @ additional_trust_anchors C\<rparr>"
  by (simp add: ExtendTrustAnchors_def)

theorem ExtendTrustAnchors_prepends_witness:
  "ExtendTrustAnchors \<lparr>other_fields = True, additional_trust_anchors = [3, 4]\<rparr> [1, 2, 1] =
     \<lparr>other_fields = True, additional_trust_anchors = [1, 2, 1, 3, 4]\<rparr>"
  using ExtendTrustAnchors_prepends
    [of "\<lparr>other_fields = True, additional_trust_anchors = [3, 4]\<rparr>" "[1, 2, 1]"]
  by simp

subsection \<open>Unfolding the member functions\<close>

lemma ExtendTrustAnchors_unfold:
  "ExtendTrustAnchors C A = C\<lparr>additional_trust_anchors := A @ additional_trust_anchors C\<rparr>"
  by (simp add: ExtendTrustAnchors_def Let_def)

lemma SetTrustAnchors_same: "this_trust_anchors v = A \<Longrightarrow> SetTrustAnchors A v = v"
  by (simp add: SetTrustAnchors_def)

lemma SetTrustAnchors_stores: "this_trust_anchors (SetTrustAnchors A v) = A"
  by (simp add: SetTrustAnchors_def Let_def split: option.splits)

lemma SetTrustAnchors_unbound:
  "this_delegate v = None \<Longrightarrow> SetTrustAnchors A v = v\<lparr>this_trust_anchors := A\<rparr>"
  by (simp add: SetTrustAnchors_def)

lemma SetTrustAnchors_bound:
  "this_delegate v = Some d \<Longrightarrow> A \<noteq> this_trust_anchors v \<Longrightarrow>
   SetTrustAnchors A v =
     v\<lparr>this_trust_anchors := A,
       this_delegate := Some (d\<lparr>SetConfig_calls :=
         SetConfig_calls d @ [ExtendTrustAnchors (this_orig_config v) A]\<rparr>)\<rparr>"
  by (simp add: SetTrustAnchors_def CachingCertVerifier_SetConfig_def)

lemma SetTrustAnchors_reconfigurations:
  "reconfigurations (SetTrustAnchors A v) \<le> reconfigurations v + 1"
  by (simp add: SetTrustAnchors_def reconfigurations_def CachingCertVerifier_SetConfig_def
      Let_def split: option.splits)

lemma InitializeOnIOThread_unfold:
  "InitializeOnIOThread p v =
     (if SupportsAdditionalTrustAnchors p then []
      else [''Additional trust anchors not supported on the current platform!''],
      v\<lparr>this_delegate := Some \<lparr>verify_proc = p,
          SetConfig_calls = [ExtendTrustAnchors (this_orig_config v) (this_trust_anchors v)]\<rparr>\<rparr>)"
  by (simp add: InitializeOnIOThread_def CachingCertVerifier_new_def
      CachingCertVerifier_SetConfig_def)

text \<open>
  With an engine bound, \<open>SetConfig\<close> stores the new base configuration and hands the
  engine that configuration with the current anchors in front.
\<close>

lemma SetConfig_bound:
  "this_delegate v = Some d \<Longrightarrow>
   SetConfig c v =
     Inr (v\<lparr>this_orig_config := c,
            this_delegate := Some (d\<lparr>SetConfig_calls :=
              SetConfig_calls d @ [ExtendTrustAnchors c (this_trust_anchors v)]\<rparr>)\<rparr>)"
  by (simp add: SetConfig_def CachingCertVerifier_SetConfig_def)

lemma SetConfig_unbound: "this_delegate v = None \<Longrightarrow> SetConfig c v = Inl NullDereference"
  by (simp add: SetConfig_def)

lemma MaybeSignalAnchorUse_fires:
  "e = OK \<Longrightarrow> is_issued_by_additional_trust_anchor r \<Longrightarrow>
   MaybeSignalAnchorUse e (Closure k) r = [ClosureRun k]"
  by (simp add: MaybeSignalAnchorUse_def)

lemma MaybeSignalAnchorUse_silent:
  "e \<noteq> OK \<or> \<not> is_issued_by_additional_trust_anchor r \<or> is_null h \<Longrightarrow>
   MaybeSignalAnchorUse e h r = []"
  by (auto simp: MaybeSignalAnchorUse_def)

lemma anchor_runs_MaybeSignalAnchorUse:
  "anchor_runs (MaybeSignalAnchorUse e h r) =
     (if e = OK \<and> is_issued_by_additional_trust_anchor r \<and> \<not> is_null h then 1 else 0)"
  by (cases h) (auto simp: MaybeSignalAnchorUse_def anchor_runs_def)

lemma completion_runs_Nil: "completion_runs [] = []"
  by (simp add: completion_runs_def)

lemma completion_runs_MaybeSignalAnchorUse:
  "completion_runs (MaybeSignalAnchorUse e h r) = []"
  by (cases h) (simp_all add: MaybeSignalAnchorUse_def completion_runs_def)

lemma completion_runs_CompleteAndSignalAnchorUse:
  "completion_runs (CompleteAndSignalAnchorUse h cc r e) = [CompletionRun cc e]"
  using completion_runs_MaybeSignalAnchorUse [of e h r]
  by (simp add: CompleteAndSignalAnchorUse_def completion_runs_def)

lemma Verify_bound:
  "this_delegate v = Some d \<Longrightarrow>
   Verify dc ev p cc v =
     Inr \<lparr>before_return =
            MaybeSignalAnchorUse (status (ev d p)) (this_anchor_used_callback v)
              (result_at_return (ev d p)),
          returned = status (ev d p),
          on_completion =
            (case completion (ev d p) of
               None \<Rightarrow> []
             | Some (e, r) \<Rightarrow>
                 CompleteAndSignalAnchorUse (this_anchor_used_callback v) cc r e)\<rparr>"
  by (simp add: Verify_def Let_def)

lemma Verify_unbound:
  "this_delegate v = None \<Longrightarrow>
   Verify dc ev p cc v = Inl (if dc then DCheckFailed else NullDereference)"
  by (simp add: Verify_def Let_def)

subsection \<open>Setting the trust anchors\<close>

text \<open>
  C2. \<open>SetTrustAnchors A\<close> in a state whose stored anchors already are \<open>A\<close> (same
  length, same certificates, same order) changes nothing: the stored anchors, the base
  configuration and the engine with the record of its \<open>SetConfig\<close> calls are as
  before, so no reconfiguration call is made. Hence a second \<open>SetTrustAnchors A\<close>
  right after a first one changes nothing, and the two calls together reconfigure the
  engine at most once.
\<close>

theorem SetTrustAnchors_idempotent:
  "(this_trust_anchors v = A \<longrightarrow>
      SetTrustAnchors A v = v \<and>
      reconfigurations (SetTrustAnchors A v) = reconfigurations v) \<and>
   SetTrustAnchors A (SetTrustAnchors A v) = SetTrustAnchors A v \<and>
   reconfigurations (SetTrustAnchors A (SetTrustAnchors A v)) \<le> reconfigurations v + 1"
proof -
  have twice: "SetTrustAnchors A (SetTrustAnchors A v) = SetTrustAnchors A v"
    by (rule SetTrustAnchors_same) (rule SetTrustAnchors_stores)
  show ?thesis
    using SetTrustAnchors_reconfigurations [of A v]
    by (simp add: twice SetTrustAnchors_same)
qed

theorem SetTrustAnchors_idempotent_witness:
  "SetTrustAnchors [5, 6]
     \<lparr>this_anchor_used_callback = Closure 1,
      this_orig_config = \<lparr>other_fields = (), additional_trust_anchors = [9]\<rparr>,
      this_trust_anchors = [5, 6],
      this_delegate = Some \<lparr>verify_proc = \<lparr>proc_id = 0, SupportsAdditionalTrustAnchors = True\<rparr>,
                            SetConfig_calls = []\<rparr>\<rparr> =
     \<lparr>this_anchor_used_callback = Closure 1,
      this_orig_config = \<lparr>other_fields = (), additional_trust_anchors = [9]\<rparr>,
      this_trust_anchors = [5, 6],
      this_delegate = Some \<lparr>verify_proc = \<lparr>proc_id = 0, SupportsAdditionalTrustAnchors = True\<rparr>,
                            SetConfig_calls = []\<rparr>\<rparr>"
  using SetTrustAnchors_idempotent
    [of "\<lparr>this_anchor_used_callback = Closure 1,
      this_orig_config = \<lparr>other_fields = (), additional_trust_anchors = [9]\<rparr>,
      this_trust_anchors = [5, 6],
      this_delegate = Some \<lparr>verify_proc = \<lparr>proc_id = 0, SupportsAdditionalTrustAnchors = True\<rparr>,
                            SetConfig_calls = []\<rparr>\<rparr>" "[5, 6]"]
  by simp

subsection \<open>Signalling the use of an anchor\<close>

text \<open>
  C3. For a completion with status \<open>e\<close>, result \<open>r\<close> and handle \<open>h\<close>, the closure
  runs if and only if \<open>e\<close> is \<open>net::OK\<close>, the result is flagged as issued by an
  additional trust anchor, and \<open>h\<close> is not null; it then runs once. This holds for the
  check itself and for the wrapped completion callback built on it. With a failure, an
  unset flag or a null handle nothing is signalled, and the wrapped callback does no more
  than run the caller's callback.
\<close>

theorem MaybeSignalAnchorUse_iff:
  "((\<exists>k. ClosureRun k \<in> set (MaybeSignalAnchorUse e h r)) =
      (e = OK \<and> is_issued_by_additional_trust_anchor r \<and> \<not> is_null h)) \<and>
   anchor_runs (MaybeSignalAnchorUse e h r) =
      (if e = OK \<and> is_issued_by_additional_trust_anchor r \<and> \<not> is_null h then 1 else 0) \<and>
   anchor_runs (CompleteAndSignalAnchorUse h cc r e) =
      (if e = OK \<and> is_issued_by_additional_trust_anchor r \<and> \<not> is_null h then 1 else 0) \<and>
   (e \<noteq> OK \<or> \<not> is_issued_by_additional_trust_anchor r \<or> is_null h \<longrightarrow>
      MaybeSignalAnchorUse e h r = [] \<and>
      CompleteAndSignalAnchorUse h cc r e = [CompletionRun cc e])"
proof (intro conjI impI)
  show "(\<exists>k. ClosureRun k \<in> set (MaybeSignalAnchorUse e h r)) =
      (e = OK \<and> is_issued_by_additional_trust_anchor r \<and> \<not> is_null h)"
    by (cases h) (auto simp: MaybeSignalAnchorUse_def)
  show "anchor_runs (MaybeSignalAnchorUse e h r) =
      (if e = OK \<and> is_issued_by_additional_trust_anchor r \<and> \<not> is_null h then 1 else 0)"
    by (rule anchor_runs_MaybeSignalAnchorUse)
  have "anchor_runs (CompleteAndSignalAnchorUse h cc r e) =
      anchor_runs (MaybeSignalAnchorUse e h r)"
    by (simp add: CompleteAndSignalAnchorUse_def anchor_runs_def)
  then show "anchor_runs (CompleteAndSignalAnchorUse h cc r e) =
      (if e = OK \<and> is_issued_by_additional_trust_anchor r \<and> \<not> is_null h then 1 else 0)"
    by (simp only: anchor_runs_MaybeSignalAnchorUse)
  assume quiet: "e \<noteq> OK \<or> \<not> is_issued_by_additional_trust_anchor r \<or> is_null h"
  then show "MaybeSignalAnchorUse e h r = []"
    by (rule MaybeSignalAnchorUse_silent)
  then show "CompleteAndSignalAnchorUse h cc r e = [CompletionRun cc e]"
    by (simp add: CompleteAndSignalAnchorUse_def)
qed

theorem MaybeSignalAnchorUse_iff_witness:
  "MaybeSignalAnchorUse (- 202) (Closure 4) \<lparr>is_issued_by_additional_trust_anchor = True\<rparr> = [] \<and>
   CompleteAndSignalAnchorUse (Closure 4) 8 \<lparr>is_issued_by_additional_trust_anchor = True\<rparr> (- 202) =
     [CompletionRun 8 (- 202)] \<and>
   anchor_runs (MaybeSignalAnchorUse 0 (Closure 4) \<lparr>is_issued_by_additional_trust_anchor = True\<rparr>) = 1"
  using MaybeSignalAnchorUse_iff
      [of "- 202" "Closure 4" "\<lparr>is_issued_by_additional_trust_anchor = True\<rparr>" 8]
    MaybeSignalAnchorUse_iff
      [of 0 "Closure 4" "\<lparr>is_issued_by_additional_trust_anchor = True\<rparr>" 8]
  by (simp add: OK_def)

text \<open>
  C4. Let the verifier be bound to an engine that keeps the rule of completion callbacks
  (an engine that runs the callback later has not returned \<open>net::OK\<close> from
  \<open>Verify\<close>), with a handle that is not null. When a request completes with success
  and a result flagged as issued by an additional trust anchor, be it at the return of
  \<open>Verify\<close> or through the wrapped callback, the closure runs exactly once over the
  whole request. In the synchronous case it runs before \<open>Verify\<close> returns and nothing
  happens afterwards; in the asynchronous case nothing is signalled at the return, and on
  completion the closure runs first and the caller's completion callback second.
\<close>

theorem Verify_signals_once:
  assumes bound: "this_delegate v = Some d"
    and handle: "this_anchor_used_callback v = Closure k"
    and contract: "completion (ev d p) \<noteq> None \<longrightarrow> status (ev d p) \<noteq> OK"
    and success:
      "(completion (ev d p) = None \<and> status (ev d p) = OK \<and>
        is_issued_by_additional_trust_anchor (result_at_return (ev d p))) \<or>
       (\<exists>r. completion (ev d p) = Some (OK, r) \<and> is_issued_by_additional_trust_anchor r)"
  shows "\<exists>out. Verify dc ev p cc v = Inr out \<and>
           anchor_runs (before_return out @ on_completion out) = 1 \<and>
           (completion (ev d p) = None \<longrightarrow>
              before_return out = [ClosureRun k] \<and> returned out = OK \<and>
              on_completion out = []) \<and>
           (completion (ev d p) \<noteq> None \<longrightarrow>
              before_return out = [] \<and> returned out = status (ev d p) \<and>
              on_completion out = [ClosureRun k, CompletionRun cc OK])"
  using success
proof (elim disjE exE conjE)
  assume "completion (ev d p) = None" "status (ev d p) = OK"
    "is_issued_by_additional_trust_anchor (result_at_return (ev d p))"
  then show ?thesis
    by (simp add: Verify_bound [OF bound] handle MaybeSignalAnchorUse_fires anchor_runs_def)
next
  fix r
  assume later: "completion (ev d p) = Some (OK, r)"
    and flag: "is_issued_by_additional_trust_anchor r"
  from contract later have "status (ev d p) \<noteq> OK" by simp
  then have "MaybeSignalAnchorUse (status (ev d p)) (Closure k) (result_at_return (ev d p)) = []"
    by (simp add: MaybeSignalAnchorUse_silent)
  with later flag show ?thesis
    by (simp add: Verify_bound [OF bound] handle MaybeSignalAnchorUse_fires
        CompleteAndSignalAnchorUse_def anchor_runs_def)
qed

theorem Verify_signals_once_witness:
  "\<exists>out. Verify True
     (\<lambda>d p. \<lparr>status = - 1,
             result_at_return = \<lparr>is_issued_by_additional_trust_anchor = False\<rparr>,
             completion = Some (0, \<lparr>is_issued_by_additional_trust_anchor = True\<rparr>)\<rparr>)
     () 8
     \<lparr>this_anchor_used_callback = Closure 4,
      this_orig_config = \<lparr>other_fields = (), additional_trust_anchors = []\<rparr>,
      this_trust_anchors = [5],
      this_delegate = Some \<lparr>verify_proc = \<lparr>proc_id = 0, SupportsAdditionalTrustAnchors = True\<rparr>,
                            SetConfig_calls = []\<rparr>\<rparr> =
     Inr out \<and>
     before_return out = [] \<and> returned out = - 1 \<and>
     on_completion out = [ClosureRun 4, CompletionRun 8 0]"
  using Verify_signals_once
    [of "\<lparr>this_anchor_used_callback = Closure 4,
      this_orig_config = \<lparr>other_fields = (), additional_trust_anchors = []\<rparr>,
      this_trust_anchors = [5],
      this_delegate = Some \<lparr>verify_proc = \<lparr>proc_id = 0, SupportsAdditionalTrustAnchors = True\<rparr>,
                            SetConfig_calls = []\<rparr>\<rparr>"
       "\<lparr>verify_proc = \<lparr>proc_id = 0, SupportsAdditionalTrustAnchors = True\<rparr>,
                            SetConfig_calls = []\<rparr>"
       4
       "\<lambda>d p. \<lparr>status = - 1,
             result_at_return = \<lparr>is_issued_by_additional_trust_anchor = False\<rparr>,
             completion = Some (0, \<lparr>is_issued_by_additional_trust_anchor = True\<rparr>)\<rparr>"
       "()" True 8]
  by (auto simp: OK_def)

subsection \<open>Passing the engine's status through\<close>

text \<open>
  C5. With an engine bound, \<open>Verify\<close> returns the status the engine returned, as it
  is; before it returns, the caller's completion callback is not run; and when the engine
  completes later with an error code, the wrapped callback runs the caller's completion
  callback once, with that very code. Neither depends on whether the closure was run.
\<close>

theorem Verify_status_unchanged:
  "completion_runs (CompleteAndSignalAnchorUse h cc r e) = [CompletionRun cc e] \<and>
   (this_delegate v = Some d \<longrightarrow>
     (\<exists>out. Verify dc ev p cc v = Inr out \<and>
        returned out = status (ev d p) \<and>
        completion_runs (before_return out) = [] \<and>
        completion_runs (on_completion out) =
          (case completion (ev d p) of
             None \<Rightarrow> []
           | Some (e', r') \<Rightarrow> [CompletionRun cc e'])))"
  by (auto simp: Verify_bound completion_runs_CompleteAndSignalAnchorUse
      completion_runs_MaybeSignalAnchorUse completion_runs_Nil split: option.splits)

theorem Verify_status_unchanged_witness:
  "\<exists>out. Verify False
     (\<lambda>d p. \<lparr>status = - 1,
             result_at_return = \<lparr>is_issued_by_additional_trust_anchor = False\<rparr>,
             completion = Some (- 202, \<lparr>is_issued_by_additional_trust_anchor = True\<rparr>)\<rparr>)
     () 8
     \<lparr>this_anchor_used_callback = Closure 4,
      this_orig_config = \<lparr>other_fields = (), additional_trust_anchors = []\<rparr>,
      this_trust_anchors = [5],
      this_delegate = Some \<lparr>verify_proc = \<lparr>proc_id = 0, SupportsAdditionalTrustAnchors = True\<rparr>,
                            SetConfig_calls = []\<rparr>\<rparr> =
     Inr out \<and>
     returned out = - 1 \<and>
     completion_runs (on_completion out) = [CompletionRun 8 (- 202)]"
  using Verify_status_unchanged
    [of "Closure 4" 8 "\<lparr>is_issued_by_additional_trust_anchor = True\<rparr>" "- 202"
       "\<lparr>this_anchor_used_callback = Closure 4,
      this_orig_config = \<lparr>other_fields = (), additional_trust_anchors = []\<rparr>,
      this_trust_anchors = [5],
      this_delegate = Some \<lparr>verify_proc = \<lparr>proc_id = 0, SupportsAdditionalTrustAnchors = True\<rparr>,
                            SetConfig_calls = []\<rparr>\<rparr>"
       "\<lparr>verify_proc = \<lparr>proc_id = 0, SupportsAdditionalTrustAnchors = True\<rparr>,
                            SetConfig_calls = []\<rparr>"
       False
       "\<lambda>d p. \<lparr>status = - 1,
             result_at_return = \<lparr>is_issued_by_additional_trust_anchor = False\<rparr>,
             completion = Some (- 202, \<lparr>is_issued_by_additional_trust_anchor = True\<rparr>)\<rparr>"
       "()"]
  by auto

subsection \<open>Anchors set before initialisation\<close>

text \<open>
  C6. In a state with no engine bound, \<open>SetTrustAnchors A\<close> stores \<open>A\<close> and does
  nothing else: there is still no engine, and the base configuration and the handle are
  as before. \<open>InitializeOnIOThread\<close> called next binds a new engine and hands it,
  as its one configuration, the stored base configuration with \<open>A\<close> in front of its
  anchors.
\<close>

theorem SetTrustAnchors_before_Initialize:
  assumes unbound: "this_delegate v = None"
  shows "SetTrustAnchors A v = v\<lparr>this_trust_anchors := A\<rparr> \<and>
         this_delegate (SetTrustAnchors A v) = None \<and>
         this_delegate (snd (InitializeOnIOThread p (SetTrustAnchors A v))) =
           Some \<lparr>verify_proc = p,
                 SetConfig_calls = [ExtendTrustAnchors (this_orig_config v) A]\<rparr> \<and>
         additional_trust_anchors (ExtendTrustAnchors (this_orig_config v) A) =
           A @ additional_trust_anchors (this_orig_config v)"
  by (simp add: SetTrustAnchors_unbound [OF unbound] unbound InitializeOnIOThread_unfold
      ExtendTrustAnchors_unfold)

theorem SetTrustAnchors_before_Initialize_witness:
  "this_delegate (snd (InitializeOnIOThread
     \<lparr>proc_id = 2, SupportsAdditionalTrustAnchors = True\<rparr>
     (SetTrustAnchors [7]
        (PolicyCertVerifier_new \<lparr>other_fields = (), additional_trust_anchors = [1]\<rparr>
           NullClosure)))) =
   Some \<lparr>verify_proc = \<lparr>proc_id = 2, SupportsAdditionalTrustAnchors = True\<rparr>,
         SetConfig_calls = [\<lparr>other_fields = (), additional_trust_anchors = [7, 1]\<rparr>]\<rparr>"
proof -
  have unbound:
    "this_delegate (PolicyCertVerifier_new \<lparr>other_fields = (), additional_trust_anchors = [1]\<rparr>
       NullClosure) = None"
    by (simp add: PolicyCertVerifier_new_def)
  note all = SetTrustAnchors_before_Initialize
    [OF unbound, of "[7]" "\<lparr>proc_id = 2, SupportsAdditionalTrustAnchors = True\<rparr>"]
  from all [THEN conjunct2, THEN conjunct2, THEN conjunct1] show ?thesis
    by (simp add: PolicyCertVerifier_new_def ExtendTrustAnchors_unfold)
qed

subsection \<open>Calls before initialisation\<close>

text \<open>
  C7. \<open>Verify\<close> with no engine bound does not return: in a build with DCHECKs the
  assertion on \<open>delegate_\<close> fails before anything else is done, and in a build without
  them the call ends in the dereference of the null pointer. This is so in particular for
  a verifier that was just constructed. With an engine bound, and in particular after
  \<open>InitializeOnIOThread\<close>, the assertion holds, the dereference is safe and
  \<open>Verify\<close> returns.
\<close>

theorem Verify_needs_delegate:
  "(this_delegate v = None \<longrightarrow>
      Verify dc ev p cc v = Inl (if dc then DCheckFailed else NullDereference)) \<and>
   Verify dc ev p cc (PolicyCertVerifier_new c0 h) =
      Inl (if dc then DCheckFailed else NullDereference) \<and>
   (this_delegate v \<noteq> None \<longrightarrow> (\<exists>out. Verify dc ev p cc v = Inr out)) \<and>
   (\<exists>out. Verify dc ev p cc (snd (InitializeOnIOThread q v)) = Inr out)"
proof (intro conjI impI)
  show "Verify dc ev p cc v = Inl (if dc then DCheckFailed else NullDereference)"
    if "this_delegate v = None"
    using that by (rule Verify_unbound)
  show "Verify dc ev p cc (PolicyCertVerifier_new c0 h) =
      Inl (if dc then DCheckFailed else NullDereference)"
    by (rule Verify_unbound) (simp add: PolicyCertVerifier_new_def)
  show "\<exists>out. Verify dc ev p cc v = Inr out" if "this_delegate v \<noteq> None"
    using that by (auto simp: Verify_bound)
  show "\<exists>out. Verify dc ev p cc (snd (InitializeOnIOThread q v)) = Inr out"
    by (simp add: InitializeOnIOThread_unfold Verify_bound)
qed

theorem Verify_needs_delegate_witness:
  "Verify True
     (\<lambda>d p. \<lparr>status = 0,
             result_at_return = \<lparr>is_issued_by_additional_trust_anchor = True\<rparr>,
             completion = None\<rparr>)
     () 8
     \<lparr>this_anchor_used_callback = Closure 4,
      this_orig_config = \<lparr>other_fields = (), additional_trust_anchors = []\<rparr>,
      this_trust_anchors = [],
      this_delegate = None\<rparr> = Inl DCheckFailed"
  using Verify_needs_delegate
    [of "\<lparr>this_anchor_used_callback = Closure 4,
      this_orig_config = \<lparr>other_fields = (), additional_trust_anchors = []\<rparr>,
      this_trust_anchors = [],
      this_delegate = None\<rparr>"
      True
      "\<lambda>d p. \<lparr>status = 0,
             result_at_return = \<lparr>is_issued_by_additional_trust_anchor = True\<rparr>,
             completion = None\<rparr>"
      "()" 8]
  by simp

text \<open>
  C8. \<open>SetConfig\<close> before \<open>InitializeOnIOThread\<close>: the function has no check of
  \<open>delegate_\<close>. On a verifier that was just constructed it assigns the base
  configuration and dereferences the null pointer, in every build; the assertion that
  stops \<open>Verify\<close> in the same state in a build with DCHECKs has no counterpart here.
\<close>

theorem SetConfig_before_Initialize_unchecked:
  "SetConfig \<lparr>other_fields = (), additional_trust_anchors = []\<rparr>
     (PolicyCertVerifier_new \<lparr>other_fields = (), additional_trust_anchors = []\<rparr> NullClosure) =
     Inl NullDereference \<and>
   Verify True
     (\<lambda>d p. \<lparr>status = 0,
             result_at_return = \<lparr>is_issued_by_additional_trust_anchor = False\<rparr>,
             completion = None\<rparr>)
     () 8
     (PolicyCertVerifier_new \<lparr>other_fields = (), additional_trust_anchors = []\<rparr> NullClosure) =
     Inl DCheckFailed"
  by (simp add: SetConfig_def Verify_def PolicyCertVerifier_new_def)

subsection \<open>Initialisation\<close>

text \<open>
  C9. \<open>InitializeOnIOThread\<close> goes through for every verify procedure. For one that
  does not support additional trust anchors it logs one warning, for one that does it
  logs nothing; in both cases it binds a new engine built from the procedure and hands
  it, as its one configuration, the base configuration with the current anchors in
  front. Two procedures that differ in their support lead to the same configuration.
\<close>

theorem InitializeOnIOThread_proceeds:
  "fst (InitializeOnIOThread p v) =
     (if SupportsAdditionalTrustAnchors p then []
      else [''Additional trust anchors not supported on the current platform!'']) \<and>
   snd (InitializeOnIOThread p v) =
     v\<lparr>this_delegate := Some \<lparr>verify_proc = p,
         SetConfig_calls =
           [ExtendTrustAnchors (this_orig_config v) (this_trust_anchors v)]\<rparr>\<rparr> \<and>
   map_option SetConfig_calls (this_delegate (snd (InitializeOnIOThread p v))) =
     map_option SetConfig_calls (this_delegate (snd (InitializeOnIOThread q v))) \<and>
   additional_trust_anchors (ExtendTrustAnchors (this_orig_config v) (this_trust_anchors v)) =
     this_trust_anchors v @ additional_trust_anchors (this_orig_config v)"
  by (simp add: InitializeOnIOThread_unfold ExtendTrustAnchors_unfold)

theorem InitializeOnIOThread_proceeds_witness:
  "InitializeOnIOThread \<lparr>proc_id = 2, SupportsAdditionalTrustAnchors = False\<rparr>
     \<lparr>this_anchor_used_callback = Closure 4,
      this_orig_config = \<lparr>other_fields = (), additional_trust_anchors = [1]\<rparr>,
      this_trust_anchors = [7],
      this_delegate = None\<rparr> =
   ([''Additional trust anchors not supported on the current platform!''],
    \<lparr>this_anchor_used_callback = Closure 4,
      this_orig_config = \<lparr>other_fields = (), additional_trust_anchors = [1]\<rparr>,
      this_trust_anchors = [7],
      this_delegate =
        Some \<lparr>verify_proc = \<lparr>proc_id = 2, SupportsAdditionalTrustAnchors = False\<rparr>,
              SetConfig_calls = [\<lparr>other_fields = (), additional_trust_anchors = [7, 1]\<rparr>]\<rparr>\<rparr>)"
  using InitializeOnIOThread_proceeds
    [of "\<lparr>proc_id = 2, SupportsAdditionalTrustAnchors = False\<rparr>"
      "\<lparr>this_anchor_used_callback = Closure 4,
      this_orig_config = \<lparr>other_fields = (), additional_trust_anchors = [1]\<rparr>,
      this_trust_anchors = [7],
      this_delegate = None\<rparr>"]
  by (simp add: prod_eq_iff ExtendTrustAnchors_unfold)

subsection \<open>No anchors\<close>

text \<open>
  C10. With the empty list of anchors \<open>ExtendTrustAnchors\<close> returns the base
  configuration itself. So, when the stored list of anchors is empty, the configuration
  handed to the engine is the stored base configuration: at \<open>InitializeOnIOThread\<close>,
  at \<open>SetConfig\<close> with an engine bound (the new base configuration), and at
  \<open>SetTrustAnchors\<close> when the stored list becomes empty.
\<close>

theorem ExtendTrustAnchors_Nil:
  "ExtendTrustAnchors C [] = C \<and>
   (this_trust_anchors v = [] \<longrightarrow>
      this_delegate (snd (InitializeOnIOThread p v)) =
        Some \<lparr>verify_proc = p, SetConfig_calls = [this_orig_config v]\<rparr>) \<and>
   (this_trust_anchors v = [] \<and> this_delegate v = Some d \<longrightarrow>
      SetConfig c v =
        Inr (v\<lparr>this_orig_config := c,
               this_delegate := Some (d\<lparr>SetConfig_calls := SetConfig_calls d @ [c]\<rparr>)\<rparr>)) \<and>
   (this_trust_anchors v \<noteq> [] \<and> this_delegate v = Some d \<longrightarrow>
      SetTrustAnchors [] v =
        v\<lparr>this_trust_anchors := [],
          this_delegate := Some (d\<lparr>SetConfig_calls :=
            SetConfig_calls d @ [this_orig_config v]\<rparr>)\<rparr>)"
proof -
  have id: "ExtendTrustAnchors C' [] = C'" for C' :: "'c Config"
    by (simp add: ExtendTrustAnchors_unfold)
  show ?thesis
    by (auto simp: id InitializeOnIOThread_unfold SetConfig_bound SetTrustAnchors_bound)
qed

theorem ExtendTrustAnchors_Nil_witness:
  "SetConfig \<lparr>other_fields = (), additional_trust_anchors = [3]\<rparr>
     \<lparr>this_anchor_used_callback = Closure 4,
      this_orig_config = \<lparr>other_fields = (), additional_trust_anchors = [1]\<rparr>,
      this_trust_anchors = [],
      this_delegate = Some \<lparr>verify_proc = \<lparr>proc_id = 0, SupportsAdditionalTrustAnchors = True\<rparr>,
                            SetConfig_calls = []\<rparr>\<rparr> =
   Inr \<lparr>this_anchor_used_callback = Closure 4,
      this_orig_config = \<lparr>other_fields = (), additional_trust_anchors = [3]\<rparr>,
      this_trust_anchors = [],
      this_delegate = Some \<lparr>verify_proc = \<lparr>proc_id = 0, SupportsAdditionalTrustAnchors = True\<rparr>,
                            SetConfig_calls = [\<lparr>other_fields = (), additional_trust_anchors = [3]\<rparr>]\<rparr>\<rparr>"
  using ExtendTrustAnchors_Nil
    [of "\<lparr>other_fields = (), additional_trust_anchors = [3]\<rparr>"
      "\<lparr>this_anchor_used_callback = Closure 4,
      this_orig_config = \<lparr>other_fields = (), additional_trust_anchors = [1]\<rparr>,
      this_trust_anchors = [],
      this_delegate = Some \<lparr>verify_proc = \<lparr>proc_id = 0, SupportsAdditionalTrustAnchors = True\<rparr>,
                            SetConfig_calls = []\<rparr>\<rparr>"
      "\<lparr>proc_id = 0, SupportsAdditionalTrustAnchors = True\<rparr>"
      "\<lparr>verify_proc = \<lparr>proc_id = 0, SupportsAdditionalTrustAnchors = True\<rparr>,
                            SetConfig_calls = []\<rparr>"
      "\<lparr>other_fields = (), additional_trust_anchors = [3]\<rparr>"]
  by simp

end
